theory Spec2Isabelle
  imports Main
begin

section \<open>Python strings and values\<close>

text \<open>
  The model follows \<^verbatim>\<open>fortranmagic.py\<close>. Python strings are \<^typ>\<open>string\<close>,
  printed output is a list of chunks, dictionaries whose iteration order matters are
  association lists, the others are maps.
\<close>

abbreviation newline :: char where
  "newline \<equiv> CHR 0x0A"

definition startswith :: "string \<Rightarrow> string \<Rightarrow> bool" where
  "startswith s p = (take (length p) s = p)"

definition endswith :: "string \<Rightarrow> string \<Rightarrow> bool" where
  "endswith s x = (length x \<le> length s \<and> drop (length s - length x) s = x)"

text \<open>\<^verbatim>\<open>sep.join(xs)\<close>\<close>

fun str_join :: "string \<Rightarrow> string list \<Rightarrow> string" where
  "str_join sep [] = []"
| "str_join sep [x] = x"
| "str_join sep (x # y # ys) = x @ sep @ str_join sep (y # ys)"

text \<open>\<^verbatim>\<open>sub in s\<close> on strings\<close>

fun contains :: "string \<Rightarrow> string \<Rightarrow> bool" where
  "contains [] sub = (sub = [])"
| "contains (c # s) sub = (take (length sub) (c # s) = sub \<or> contains s sub)"

text \<open>\<^verbatim>\<open>str(n)\<close> on integers, in decimal\<close>

fun str_nat :: "nat \<Rightarrow> string" where
  "str_nat n = (if n < 10 then [char_of (48 + n)]
                else str_nat (n div 10) @ [char_of (48 + n mod 10)])"

declare str_nat.simps [simp del]

definition str_int :: "int \<Rightarrow> string" where
  "str_int i = (if i < 0 then CHR ''-'' # str_nat (nat (- i)) else str_nat (nat i))"

text \<open>
  The values an attribute of the parsed \<^verbatim>\<open>argparse\<close> namespace can hold: \<^verbatim>\<open>None\<close>
  (an option not given), a boolean (\<^verbatim>\<open>store_true\<close>), an integer (\<^verbatim>\<open>count\<close>), a string,
  a list of strings (\<^verbatim>\<open>append\<close>). The namespace is \<^verbatim>\<open>vars(args).items()\<close>, in the
  dictionary's iteration order.
\<close>

datatype pyval = PyNone | PyBool bool | PyInt int | PyStr string | PyList "string list"

type_synonym namespace = "(string \<times> pyval) list"

text \<open>
  \<^verbatim>\<open>args.link\<close> and \<^verbatim>\<open>args.verbosity\<close>; the parser binds the first to a list
  (\<^verbatim>\<open>action='append', default=[]\<close>) and the second to a count (\<^verbatim>\<open>default=0\<close>).
\<close>

definition args_link :: "namespace \<Rightarrow> string list" where
  "args_link args = (case map_of args ''link'' of Some (PyList rs) \<Rightarrow> rs | _ \<Rightarrow> [])"

definition args_verbosity :: "namespace \<Rightarrow> int" where
  "args_verbosity args = (case map_of args ''verbosity'' of Some (PyInt n) \<Rightarrow> n | _ \<Rightarrow> 0)"

section \<open>Exceptions\<close>

text \<open>The argument of a \<^verbatim>\<open>SystemExit\<close> and \<^verbatim>\<open>str(e)\<close> of the exception.\<close>

datatype exit_code = ExitNone | ExitInt int | ExitStr string

fun str_exit :: "exit_code \<Rightarrow> string" where
  "str_exit ExitNone = []"
| "str_exit (ExitInt i) = str_int i"
| "str_exit (ExitStr s) = s"

datatype exn =
    UsageError string
  | SystemExit exit_code
  | ImportError string
  | OtherError string

section \<open>Process state and environment\<close>

type_synonym version_info = "nat \<times> nat \<times> nat \<times> string \<times> nat"

text \<open>The tuple \<^verbatim>\<open>key = code, sys.version_info, sys.executable, f2py2e.f2py_version\<close>\<close>

type_synonym key = "string \<times> version_info \<times> string \<times> string"

type_synonym fs = "string \<rightharpoonup> string"

text \<open>
  The state the magic reads and writes: \<^verbatim>\<open>sys.argv\<close>, the working directory, the files,
  what has been printed, the shell's user namespace, \<^verbatim>\<open>self._code_cache\<close>, and a log
  of the entries into \<^verbatim>\<open>f2py2e.main()\<close> (argument list, working directory and files at
  entry), which the program does not keep and the model adds to count invocations.
\<close>

record 'v world =
  sys_argv :: "string list"
  cwd :: string
  files :: fs
  stdout :: "string list"
  user_ns :: "string \<rightharpoonup> 'v"
  code_cache :: "key \<rightharpoonup> string"
  f2py_calls :: "(string list \<times> string \<times> fs) list"

text \<open>
  One run of \<^verbatim>\<open>f2py2e.main()\<close> under \<^verbatim>\<open>capture_output()\<close>: whether it raised, what it
  wrote to the captured streams, and the argument list, working directory and files it
  left behind.
\<close>

record driver_result =
  dr_raised :: "exn option"
  dr_captured :: string
  dr_argv :: "string list"
  dr_cwd :: string
  dr_files :: fs

text \<open>
  What the module takes from outside: interpreter and driver identity, the cache
  directory \<^verbatim>\<open>self._lib_dir\<close>, the suffix \<^verbatim>\<open>self.so_ext\<close>, and the library functions
  \<^verbatim>\<open>str\<close> on the key, \<^verbatim>\<open>hashlib.md5(...).hexdigest()\<close>, \<^verbatim>\<open>parse_argstring\<close>,
  \<^verbatim>\<open>f2py2e.main\<close> and \<^verbatim>\<open>imp.load_dynamic\<close>. A loaded module is its
  \<^verbatim>\<open>__dict__.items()\<close>. The directory tree is not modelled: \<^verbatim>\<open>__init__\<close> creates
  the cache directory, and \<^verbatim>\<open>os.chdir\<close> and \<^verbatim>\<open>io.open\<close> are taken to succeed.
\<close>

record 'v env =
  version_info :: version_info
  executable :: string
  f2py_version :: string
  lib_dir :: string
  so_ext :: string
  str_key :: "key \<Rightarrow> string"
  md5_hexdigest :: "string \<Rightarrow> string"
  parse_argstring :: "string \<Rightarrow> exn + namespace"
  f2py_main :: "string list \<Rightarrow> string \<Rightarrow> fs \<Rightarrow> driver_result"
  load_dynamic :: "string \<Rightarrow> string \<Rightarrow> fs \<Rightarrow> exn + (string \<times> 'v) list"

text \<open>\<^verbatim>\<open>print(s)\<close>, and \<^verbatim>\<open>captured()\<close>, which replays the captured streams.\<close>

definition print :: "string \<Rightarrow> 'v world \<Rightarrow> 'v world" where
  "print s w = w\<lparr>stdout := stdout w @ [s @ [newline]]\<rparr>"

definition show_captured_output :: "string \<Rightarrow> 'v world \<Rightarrow> 'v world" where
  "show_captured_output c w = w\<lparr>stdout := stdout w @ [c]\<rparr>"

text \<open>\<^verbatim>\<open>os.path.join(a, b)\<close> of \<^verbatim>\<open>posixpath\<close>\<close>

definition path_join :: "string \<Rightarrow> string \<Rightarrow> string" where
  "path_join a b =
     (if startswith b ''/'' then b
      else if a = [] \<or> endswith a ''/'' then a @ b
      else a @ ''/'' @ b)"

section \<open>\<^verbatim>\<open>FortranMagics._import_all\<close>\<close>

fun import_loop :: "(string \<times> 'v) list \<Rightarrow> 'v world \<Rightarrow> string list \<Rightarrow> 'v world \<times> string list" where
  "import_loop [] w imported = (w, imported)"
| "import_loop ((k, v) # rest) w imported =
     (if \<not> startswith k ''__''
      then import_loop rest (w\<lparr>user_ns := (user_ns w)(k \<mapsto> v)\<rparr>) (imported @ [k])
      else import_loop rest w imported)"

definition ready_msg :: "string list \<Rightarrow> string" where
  "ready_msg imported =
     [newline] @ ''Ok. The following fortran objects are ready to use: ''
       @ str_join '', '' imported"

definition import_all :: "(string \<times> 'v) list \<Rightarrow> int \<Rightarrow> 'v world \<Rightarrow> 'v world" where
  "import_all module verbosity w =
     (case import_loop module w [] of
        (w', imported) \<Rightarrow>
          if verbosity > 0 \<and> imported \<noteq> [] then print (ready_msg imported) w' else w')"

section \<open>\<^verbatim>\<open>FortranMagics._run_f2py\<close>\<close>

definition running_msg :: "string list \<Rightarrow> string" where
  "running_msg argv = ''Running...'' @ [newline] @ ''   '' @ str_join '' '' argv"

text \<open>The call \<^verbatim>\<open>f2py2e.main()\<close>: the driver reads and may change the process state.\<close>

definition call_main :: "'v env \<Rightarrow> 'v world \<Rightarrow> driver_result \<times> 'v world" where
  "call_main env w =
     (let r = f2py_main env (sys_argv w) (cwd w) (files w)
      in (r, w\<lparr>sys_argv := dr_argv r, cwd := dr_cwd r, files := dr_files r,
                f2py_calls := f2py_calls w @ [(sys_argv w, cwd w, files w)]\<rparr>))"

text \<open>
  The inner \<^verbatim>\<open>try\<close>: a return shows the captured output on request, a
  \<^verbatim>\<open>SystemExit\<close> shows it and raises \<^verbatim>\<open>UsageError(str(e))\<close>, any other exception
  passes through.
\<close>

definition run_main :: "'v env \<Rightarrow> bool \<Rightarrow> int \<Rightarrow> 'v world \<Rightarrow> exn option \<times> 'v world" where
  "run_main env show_captured verbosity w =
     (case call_main env w of
        (r, w') \<Rightarrow>
          (case dr_raised r of
             None \<Rightarrow>
               (None, if show_captured \<or> verbosity > 2
                      then show_captured_output (dr_captured r) w' else w')
           | Some (SystemExit e) \<Rightarrow>
               (Some (UsageError (str_exit e)), show_captured_output (dr_captured r) w')
           | Some x \<Rightarrow> (Some x, w')))"

text \<open>The outer \<^verbatim>\<open>try ... finally\<close>; \<^verbatim>\<open>list(map(str, argv))\<close> is \<open>argv\<close> on strings.\<close>

definition run_f2py ::
  "'v env \<Rightarrow> string list \<Rightarrow> bool \<Rightarrow> int \<Rightarrow> 'v world \<Rightarrow> exn option \<times> 'v world" where
  "run_f2py env argv show_captured verbosity w =
     (let old_argv = sys_argv w;
          old_cwd = cwd w;
          w1 = w\<lparr>sys_argv := ''f2py'' # argv\<rparr>;
          w2 = (if verbosity > 1 then print (running_msg (sys_argv w1)) w1 else w1);
          w3 = w2\<lparr>cwd := lib_dir env\<rparr>
      in case run_main env show_captured verbosity w3 of
           (raised, w4) \<Rightarrow> (raised, w4\<lparr>sys_argv := old_argv, cwd := old_cwd\<rparr>))"

section \<open>\<^verbatim>\<open>FortranMagics.fortran\<close>\<close>

text \<open>Lines 237 to 247: the flags handed to the driver.\<close>

definition f2py_args_of :: "namespace \<Rightarrow> string list" where
  "f2py_args_of args =
     (let f2py_args = [''--'' @ k. (k, v) \<leftarrow> args, v = PyBool True];
          kw = [''--'' @ k @ ''='' @ s. (k, PyStr s) \<leftarrow> args];
          f2py_args = f2py_args @ kw
      in if args_link args \<noteq> []
         then f2py_args @ [''--link-'' @ r. r \<leftarrow> args_link args]
         else f2py_args)"

text \<open>Line 249\<close>

definition normalize_cell :: "string \<Rightarrow> string" where
  "normalize_cell cell = (if endswith cell [newline] then cell else cell @ [newline])"

text \<open>The local variables of \<^verbatim>\<open>fortran\<close> before the first effect (lines 235 to 259).\<close>

record request =
  rq_f2py_args :: "string list"
  rq_code :: string
  rq_key :: key
  rq_module_name :: string
  rq_module_path :: string
  rq_f90_file :: string

definition fortran_request :: "'v env \<Rightarrow> namespace \<Rightarrow> string \<Rightarrow> request" where
  "fortran_request env args cell =
     (let code = normalize_cell cell;
          key = (code, version_info env, executable env, f2py_version env);
          module_name = ''_fortran_magic_'' @ md5_hexdigest env (str_key env key)
      in \<lparr>rq_f2py_args = f2py_args_of args,
          rq_code = code,
          rq_key = key,
          rq_module_name = module_name,
          rq_module_path = path_join (lib_dir env) (module_name @ so_ext env),
          rq_f90_file = path_join (lib_dir env) (module_name @ ''.f90'')\<rparr>)"

text \<open>The argument list of line 263.\<close>

definition fortran_argv :: "request \<Rightarrow> string list" where
  "fortran_argv rq = rq_f2py_args rq @ [''-m'', rq_module_name rq, ''-c'', rq_f90_file rq]"

text \<open>
  The cell magic: the result is the exception raised, if any, and the state left behind.
\<close>

definition fortran :: "'v env \<Rightarrow> string \<Rightarrow> string \<Rightarrow> 'v world \<Rightarrow> exn option \<times> 'v world" where
  "fortran env line cell w =
     (case parse_argstring env line of
        Inl e \<Rightarrow> (Some e, w)
      | Inr args \<Rightarrow>
          (let rq = fortran_request env args cell;
               w1 = w\<lparr>files := (files w)(rq_f90_file rq \<mapsto> rq_code rq)\<rparr>
           in case run_f2py env (fortran_argv rq) False (args_verbosity args) w1 of
                (Some e, w2) \<Rightarrow> (Some e, w2)
              | (None, w2) \<Rightarrow>
                  (let w3 = w2\<lparr>code_cache := (code_cache w2)(rq_key rq \<mapsto> rq_module_name rq)\<rparr>
                   in case load_dynamic env (rq_module_name rq) (rq_module_path rq) (files w3) of
                        Inl e \<Rightarrow> (Some e, w3)
                      | Inr module \<Rightarrow>
                          (None, import_all module (args_verbosity args) w3))))"

section \<open>The argument translator as the specification words it\<close>

text \<open>
  Three groups of tokens, in this order: \<^verbatim>\<open>--name\<close> for each flag that is \<^verbatim>\<open>True\<close>,
  \<^verbatim>\<open>--name=value\<close> for each option with a string value, \<^verbatim>\<open>--link-r\<close> for each
  entry of the link list.
\<close>

fun spec_flag_tokens :: "namespace \<Rightarrow> string list" where
  "spec_flag_tokens [] = []"
| "spec_flag_tokens ((k, PyBool True) # rest) = (''--'' @ k) # spec_flag_tokens rest"
| "spec_flag_tokens (kv # rest) = spec_flag_tokens rest"

fun spec_option_tokens :: "namespace \<Rightarrow> string list" where
  "spec_option_tokens [] = []"
| "spec_option_tokens ((k, PyStr s) # rest) = (''--'' @ k @ ''='' @ s) # spec_option_tokens rest"
| "spec_option_tokens (kv # rest) = spec_option_tokens rest"

fun spec_link_tokens :: "string list \<Rightarrow> string list" where
  "spec_link_tokens [] = []"
| "spec_link_tokens (r # rs) = (''--link-'' @ r) # spec_link_tokens rs"

definition spec_translate :: "namespace \<Rightarrow> string list" where
  "spec_translate args =
     spec_flag_tokens args @ spec_option_tokens args @ spec_link_tokens (args_link args)"

section \<open>A concrete session\<close>

text \<open>
  A small environment on which the theorems below are instantiated: an interpreter and
  driver identity, a cache directory, a parser that yields the namespace of the given
  flags, and a loader that yields a module with one dunder and one public name. The
  digest is a stand-in with the shape of an MD5 hex digest; nothing below depends on
  its values.
\<close>

definition ex_args :: namespace where
  "ex_args =
     [(''verbosity'', PyInt 0), (''fcompiler'', PyStr ''gnu95''), (''compiler'', PyNone),
      (''f90flags'', PyNone), (''f77flags'', PyNone), (''opt'', PyStr ''-O3''),
      (''arch'', PyNone), (''noopt'', PyBool False), (''noarch'', PyBool True),
      (''debug'', PyBool True), (''link'', PyList [''lapack'', ''blas''])]"

definition ex_line :: string where
  "ex_line = ''--fcompiler gnu95 --opt=-O3 --noarch --debug --link lapack --link blas''"

definition ex_cell :: string where
  "ex_cell = ''subroutine f(x); integer :: x; x = x + 1; end subroutine''"

definition ex_digest :: "string \<Rightarrow> string" where
  "ex_digest s = ''0cc175b9c0f1b6a831c399e269772661''"

definition ex_str_key :: "key \<Rightarrow> string" where
  "ex_str_key k = (case k of (code, v, exe, f2v) \<Rightarrow> code @ exe @ f2v)"

definition ex_module :: "(string \<times> nat) list" where
  "ex_module = [(''__doc__'', 0), (''f'', 1)]"

text \<open>
  A driver that returns, and one that leaves a message on the captured streams, changes
  the argument list and the working directory, and raises \<^verbatim>\<open>SystemExit(code)\<close>.
\<close>

definition ok_driver :: "string list \<Rightarrow> string \<Rightarrow> fs \<Rightarrow> driver_result" where
  "ok_driver argv d fls =
     \<lparr>dr_raised = None, dr_captured = ''running build'', dr_argv = argv, dr_cwd = d,
      dr_files = fls\<rparr>"

definition exit_driver :: "exit_code \<Rightarrow> string list \<Rightarrow> string \<Rightarrow> fs \<Rightarrow> driver_result" where
  "exit_driver code argv d fls =
     \<lparr>dr_raised = Some (SystemExit code), dr_captured = ''Error: syntax error'',
      dr_argv = [], dr_cwd = ''/tmp'', dr_files = fls\<rparr>"

definition ex_env :: "(string list \<Rightarrow> string \<Rightarrow> fs \<Rightarrow> driver_result) \<Rightarrow> nat env" where
  "ex_env driver =
     \<lparr>version_info = (2, 7, 6, ''final'', 0),
      executable = ''/usr/bin/python'',
      f2py_version = ''2'',
      lib_dir = ''/home/u/.cache/ipython/fortran'',
      so_ext = ''.so'',
      str_key = ex_str_key,
      md5_hexdigest = ex_digest,
      parse_argstring = (\<lambda>line. Inr ex_args),
      f2py_main = driver,
      load_dynamic = (\<lambda>name path fls. Inr ex_module)\<rparr>"

definition ex_world :: "nat world" where
  "ex_world =
     \<lparr>sys_argv = [''ipython''], cwd = ''/home/u'', files = Map.empty, stdout = [],
      user_ns = Map.empty, code_cache = Map.empty, f2py_calls = []\<rparr>"

section \<open>Frame lemmas\<close>

lemma print_fields [simp]:
  "sys_argv (print s w) = sys_argv w" "cwd (print s w) = cwd w" "files (print s w) = files w"
  "user_ns (print s w) = user_ns w" "code_cache (print s w) = code_cache w"
  "f2py_calls (print s w) = f2py_calls w" "stdout (print s w) = stdout w @ [s @ [newline]]"
  by (simp_all add: print_def)

lemma show_fields [simp]:
  "sys_argv (show_captured_output s w) = sys_argv w" "cwd (show_captured_output s w) = cwd w"
  "files (show_captured_output s w) = files w"
  "user_ns (show_captured_output s w) = user_ns w"
  "code_cache (show_captured_output s w) = code_cache w"
  "f2py_calls (show_captured_output s w) = f2py_calls w"
  "stdout (show_captured_output s w) = stdout w @ [s]"
  by (simp_all add: show_captured_output_def)

lemma run_f2py_raised:
  "fst (run_f2py env argv sc v w) =
     (case dr_raised (f2py_main env (''f2py'' # argv) (lib_dir env) (files w)) of
        None \<Rightarrow> None
      | Some (SystemExit c) \<Rightarrow> Some (UsageError (str_exit c))
      | Some x \<Rightarrow> Some x)"
  by (simp add: run_f2py_def run_main_def call_main_def Let_def
           split: prod.splits option.splits exn.splits)

lemma run_f2py_calls:
  "f2py_calls (snd (run_f2py env argv sc v w)) =
     f2py_calls w @ [(''f2py'' # argv, lib_dir env, files w)]"
  by (simp add: run_f2py_def run_main_def call_main_def Let_def
           split: prod.splits option.splits exn.splits)

lemma run_f2py_frame:
  "code_cache (snd (run_f2py env argv sc v w)) = code_cache w"
  "user_ns (snd (run_f2py env argv sc v w)) = user_ns w"
  "sys_argv (snd (run_f2py env argv sc v w)) = sys_argv w"
  "cwd (snd (run_f2py env argv sc v w)) = cwd w"
  "files (snd (run_f2py env argv sc v w)) =
     dr_files (f2py_main env (''f2py'' # argv) (lib_dir env) (files w))"
  by (simp_all add: run_f2py_def run_main_def call_main_def Let_def
           split: prod.splits option.splits exn.splits)

lemma run_f2py_stdout_exit:
  "dr_raised (f2py_main env (''f2py'' # argv) (lib_dir env) (files w)) = Some (SystemExit c) \<Longrightarrow>
   stdout (snd (run_f2py env argv sc v w)) =
     (if v > 1 then stdout w @ [running_msg (''f2py'' # argv) @ [newline]] else stdout w)
       @ [dr_captured (f2py_main env (''f2py'' # argv) (lib_dir env) (files w))]"
  by (simp add: run_f2py_def run_main_def call_main_def Let_def
           split: prod.splits option.splits exn.splits)

lemma import_loop_frame:
  "sys_argv (fst (import_loop m w acc)) = sys_argv w"
  "cwd (fst (import_loop m w acc)) = cwd w"
  "files (fst (import_loop m w acc)) = files w"
  "stdout (fst (import_loop m w acc)) = stdout w"
  "code_cache (fst (import_loop m w acc)) = code_cache w"
  "f2py_calls (fst (import_loop m w acc)) = f2py_calls w"
  by (induction m w acc rule: import_loop.induct; simp)+

lemma import_loop_names:
  "snd (import_loop m w acc) = acc @ filter (\<lambda>k. \<not> startswith k ''__'') (map fst m)"
  by (induction m w acc rule: import_loop.induct) simp_all

lemma import_loop_other:
  "k \<notin> fst ` set m \<Longrightarrow> user_ns (fst (import_loop m w acc)) k = user_ns w k"
  by (induction m w acc rule: import_loop.induct) auto

lemma import_loop_binds:
  "distinct (map fst m) \<Longrightarrow> (k, v) \<in> set m \<Longrightarrow> \<not> startswith k ''__'' \<Longrightarrow>
   user_ns (fst (import_loop m w acc)) k = Some v"
proof (induction m w acc rule: import_loop.induct)
  case (1 w imported)
  then show ?case by simp
next
  case (2 k' v' rest w imported)
  show ?case
  proof (cases "(k, v) = (k', v')")
    case True
    with 2 show ?thesis by (simp add: import_loop_other)
  next
    case False
    with 2 show ?thesis by (auto split: if_splits)
  qed
qed

lemma import_all_frame:
  "sys_argv (import_all m v w) = sys_argv w"
  "cwd (import_all m v w) = cwd w"
  "files (import_all m v w) = files w"
  "code_cache (import_all m v w) = code_cache w"
  "f2py_calls (import_all m v w) = f2py_calls w"
  using import_loop_frame [of m w "[]"]
  by (auto simp add: import_all_def split: prod.splits)

lemma import_all_stdout:
  "stdout (import_all m v w) =
     (if v > 0 \<and> filter (\<lambda>k. \<not> startswith k ''__'') (map fst m) \<noteq> []
      then stdout w @ [ready_msg (filter (\<lambda>k. \<not> startswith k ''__'') (map fst m)) @ [newline]]
      else stdout w)"
  using import_loop_frame(4) [of m w "[]"] import_loop_names [of m w "[]"]
  by (auto simp add: import_all_def split: prod.splits)

lemma import_all_user_ns:
  "user_ns (import_all m v w) = user_ns (fst (import_loop m w []))"
  by (auto simp add: import_all_def split: prod.splits)

lemma fortran_calls:
  "parse_argstring env line = Inr args \<Longrightarrow> rq = fortran_request env args cell \<Longrightarrow>
   f2py_calls (snd (fortran env line cell w)) =
     f2py_calls w @ [(''f2py'' # fortran_argv rq, lib_dir env,
                      (files w)(rq_f90_file rq \<mapsto> rq_code rq))]"
  using run_f2py_calls [of env "fortran_argv rq" False "args_verbosity args"
      "w\<lparr>files := (files w)(rq_f90_file rq \<mapsto> rq_code rq)\<rparr>"]
  by (auto simp add: fortran_def Let_def import_all_frame split: prod.splits option.splits sum.splits)

lemma fortran_raised:
  "parse_argstring env line = Inr args \<Longrightarrow> rq = fortran_request env args cell \<Longrightarrow>
   dr_raised (f2py_main env (''f2py'' # fortran_argv rq) (lib_dir env)
      ((files w)(rq_f90_file rq \<mapsto> rq_code rq))) = Some x \<Longrightarrow>
   fst (fortran env line cell w) = fst (run_f2py env (fortran_argv rq) False (args_verbosity args)
      (w\<lparr>files := (files w)(rq_f90_file rq \<mapsto> rq_code rq)\<rparr>)) \<and>
   snd (fortran env line cell w) = snd (run_f2py env (fortran_argv rq) False (args_verbosity args)
      (w\<lparr>files := (files w)(rq_f90_file rq \<mapsto> rq_code rq)\<rparr>))"
  using run_f2py_raised [of env "fortran_argv rq" False "args_verbosity args"
      "w\<lparr>files := (files w)(rq_f90_file rq \<mapsto> rq_code rq)\<rparr>"]
  by (auto simp add: fortran_def Let_def split: prod.splits option.splits sum.splits exn.splits)

lemma fortran_success_cache:
  "parse_argstring env line = Inr args \<Longrightarrow> rq = fortran_request env args cell \<Longrightarrow>
   fst (fortran env line cell w) = None \<Longrightarrow>
   code_cache (snd (fortran env line cell w)) = (code_cache w)(rq_key rq \<mapsto> rq_module_name rq)"
  using run_f2py_frame(1) [of env "fortran_argv rq" False "args_verbosity args"
      "w\<lparr>files := (files w)(rq_f90_file rq \<mapsto> rq_code rq)\<rparr>"]
  by (auto simp add: fortran_def Let_def import_all_frame split: prod.splits option.splits sum.splits)

lemmas ex_defs = ex_env_def ex_world_def ex_args_def ex_line_def ex_cell_def ex_digest_def
  ex_str_key_def ex_module_def ok_driver_def exit_driver_def

lemmas model_defs = fortran_def fortran_request_def fortran_argv_def run_f2py_def run_main_def
  call_main_def import_all_def print_def show_captured_output_def path_join_def normalize_cell_def
  startswith_def endswith_def f2py_args_of_def args_link_def args_verbosity_def Let_def

section \<open>The build cache\<close>

text \<open>
  A successful build of the example cell records its key in \<^verbatim>\<open>_code_cache\<close>, and the
  same request sent again enters the driver a second time: \<^verbatim>\<open>fortran\<close> writes the
  cache and never reads it.
\<close>

theorem fortran_cached_request_counterexample:
  "fst (fortran (ex_env ok_driver) ex_line ex_cell ex_world) = None \<and>
   code_cache (snd (fortran (ex_env ok_driver) ex_line ex_cell ex_world))
     (rq_key (fortran_request (ex_env ok_driver) ex_args ex_cell))
     = Some ''_fortran_magic_0cc175b9c0f1b6a831c399e269772661'' \<and>
   length (f2py_calls (snd (fortran (ex_env ok_driver) ex_line ex_cell ex_world))) = 1 \<and>
   length (f2py_calls (snd (fortran (ex_env ok_driver) ex_line ex_cell
      (snd (fortran (ex_env ok_driver) ex_line ex_cell ex_world))))) = 2"
  by (simp add: ex_defs model_defs)

text \<open>
  C1, as the code has it: after a request has compiled, its key is mapped to the module
  name, and the same request sent again enters the driver once more, with the same
  argument list, in the cache directory, on the rewritten source file; if that build
  succeeds too, the mapping is what it was.
\<close>

theorem fortran_compiles_again:
  assumes "parse_argstring env line = Inr args"
    and "rq = fortran_request env args cell"
    and "fortran env line cell w = (None, w1)"
  shows "code_cache w1 (rq_key rq) = Some (rq_module_name rq) \<and>
         f2py_calls (snd (fortran env line cell w1)) =
           f2py_calls w1 @ [(''f2py'' # fortran_argv rq, lib_dir env,
                             (files w1)(rq_f90_file rq \<mapsto> rq_code rq))] \<and>
         (fst (fortran env line cell w1) = None \<longrightarrow>
            code_cache (snd (fortran env line cell w1)) = code_cache w1)"
proof -
  from assms(3) have ok: "fst (fortran env line cell w) = None"
    and w1: "snd (fortran env line cell w) = w1" by simp_all
  from fortran_success_cache [OF assms(1,2) ok] w1
  have c1: "code_cache w1 = (code_cache w)(rq_key rq \<mapsto> rq_module_name rq)" by simp
  have again: "fst (fortran env line cell w1) = None \<Longrightarrow>
      code_cache (snd (fortran env line cell w1)) = code_cache w1"
    using fortran_success_cache [OF assms(1,2), of w1] c1 by simp
  from c1 again fortran_calls [OF assms(1,2), of w1] show ?thesis by simp
qed

theorem fortran_compiles_again_witness:
  "code_cache (snd (fortran (ex_env ok_driver) ex_line ex_cell ex_world))
     (rq_key (fortran_request (ex_env ok_driver) ex_args ex_cell))
     = Some (rq_module_name (fortran_request (ex_env ok_driver) ex_args ex_cell)) \<and>
   length (f2py_calls (snd (fortran (ex_env ok_driver) ex_line ex_cell
      (snd (fortran (ex_env ok_driver) ex_line ex_cell ex_world))))) =
   Suc (length (f2py_calls (snd (fortran (ex_env ok_driver) ex_line ex_cell ex_world))))"
proof -
  have p: "parse_argstring (ex_env ok_driver) ex_line = Inr ex_args"
    by (simp add: ex_env_def)
  have ok: "fst (fortran (ex_env ok_driver) ex_line ex_cell ex_world) = None"
    by (simp add: ex_defs model_defs)
  then have r: "fortran (ex_env ok_driver) ex_line ex_cell ex_world =
      (None, snd (fortran (ex_env ok_driver) ex_line ex_cell ex_world))"
    by (simp add: prod_eq_iff)
  from fortran_compiles_again [OF p refl r] show ?thesis by simp
qed

text \<open>
  C2: when the driver raises on a request, \<^verbatim>\<open>fortran\<close> raises, \<^verbatim>\<open>_code_cache\<close> is
  what it was before the call, and the same request sent again enters the driver again.
\<close>

theorem failed_build_not_cached:
  assumes "parse_argstring env line = Inr args"
    and "rq = fortran_request env args cell"
    and "dr_raised (f2py_main env (''f2py'' # fortran_argv rq) (lib_dir env)
           ((files w)(rq_f90_file rq \<mapsto> rq_code rq))) = Some x"
    and "w' = snd (fortran env line cell w)"
  shows "fst (fortran env line cell w) \<noteq> None \<and>
         code_cache w' = code_cache w \<and>
         f2py_calls (snd (fortran env line cell w')) =
           f2py_calls w' @ [(''f2py'' # fortran_argv rq, lib_dir env,
                             (files w')(rq_f90_file rq \<mapsto> rq_code rq))]"
proof -
  let ?w1 = "w\<lparr>files := (files w)(rq_f90_file rq \<mapsto> rq_code rq)\<rparr>"
  from assms(3) have "fst (run_f2py env (fortran_argv rq) False (args_verbosity args) ?w1) \<noteq> None"
    by (simp add: run_f2py_raised split: exn.splits)
  moreover have "code_cache (snd (run_f2py env (fortran_argv rq) False (args_verbosity args) ?w1))
      = code_cache w"
    by (simp add: run_f2py_frame)
  ultimately show ?thesis
    using fortran_raised [OF assms(1,2,3)] fortran_calls [OF assms(1,2), of w'] assms(4)
    by simp
qed

theorem failed_build_not_cached_witness:
  "fst (fortran (ex_env (exit_driver (ExitInt 1))) ex_line ex_cell ex_world) \<noteq> None \<and>
   code_cache (snd (fortran (ex_env (exit_driver (ExitInt 1))) ex_line ex_cell ex_world)) = Map.empty \<and>
   length (f2py_calls (snd (fortran (ex_env (exit_driver (ExitInt 1))) ex_line ex_cell
      (snd (fortran (ex_env (exit_driver (ExitInt 1))) ex_line ex_cell ex_world))))) =
   Suc (length (f2py_calls (snd (fortran (ex_env (exit_driver (ExitInt 1))) ex_line ex_cell ex_world))))"
proof -
  have p: "parse_argstring (ex_env (exit_driver (ExitInt 1))) ex_line = Inr ex_args"
    by (simp add: ex_env_def)
  have d: "dr_raised (f2py_main (ex_env (exit_driver (ExitInt 1)))
       (''f2py'' # fortran_argv (fortran_request (ex_env (exit_driver (ExitInt 1))) ex_args ex_cell))
       (lib_dir (ex_env (exit_driver (ExitInt 1))))
       ((files ex_world)(rq_f90_file (fortran_request (ex_env (exit_driver (ExitInt 1))) ex_args ex_cell)
          \<mapsto> rq_code (fortran_request (ex_env (exit_driver (ExitInt 1))) ex_args ex_cell))))
     = Some (SystemExit (ExitInt 1))"
    by (simp add: ex_env_def exit_driver_def)
  have c: "code_cache ex_world = Map.empty" by (simp add: ex_world_def)
  from failed_build_not_cached [OF p refl d refl] c show ?thesis by simp
qed

section \<open>Driver failures\<close>

text \<open>
  The driver of the example exits with status 1 after writing a compiler message: the
  usage error carries \<^verbatim>\<open>str(e)\<close>, which is \<^verbatim>\<open>1\<close>, and the message goes to the
  output, not into the error.
\<close>

theorem usage_error_content_counterexample:
  "fst (fortran (ex_env (exit_driver (ExitInt 1))) ex_line ex_cell ex_world)
     = Some (UsageError ''1'') \<and>
   stdout (snd (fortran (ex_env (exit_driver (ExitInt 1))) ex_line ex_cell ex_world))
     = [''Error: syntax error''] \<and>
   \<not> contains ''1'' ''Error: syntax error''"
proof -
  have s1: "str_int 1 = ''1''" by code_simp
  show ?thesis by (simp add: ex_defs model_defs s1)
qed

text \<open>
  C3, as the code has it: when the driver raises \<^verbatim>\<open>SystemExit\<close>, \<^verbatim>\<open>fortran\<close> raises
  one \<^verbatim>\<open>UsageError\<close> whose message is \<^verbatim>\<open>str(e)\<close>, and the captured output of the
  driver is replayed on the output before the error is raised (after the
  \<^verbatim>\<open>Running...\<close> line, when verbosity is above 1).
\<close>

theorem driver_exit_raises_usage_error:
  assumes "parse_argstring env line = Inr args"
    and "rq = fortran_request env args cell"
    and "r = f2py_main env (''f2py'' # fortran_argv rq) (lib_dir env)
               ((files w)(rq_f90_file rq \<mapsto> rq_code rq))"
    and "dr_raised r = Some (SystemExit c)"
  shows "fst (fortran env line cell w) = Some (UsageError (str_exit c)) \<and>
         stdout (snd (fortran env line cell w)) =
           (if args_verbosity args > 1
            then stdout w @ [running_msg (''f2py'' # fortran_argv rq) @ [newline]]
            else stdout w) @ [dr_captured r]"
proof -
  let ?w1 = "w\<lparr>files := (files w)(rq_f90_file rq \<mapsto> rq_code rq)\<rparr>"
  from assms(3,4) have d: "dr_raised (f2py_main env (''f2py'' # fortran_argv rq) (lib_dir env)
      (files ?w1)) = Some (SystemExit c)" by simp
  from d have e: "fst (run_f2py env (fortran_argv rq) False (args_verbosity args) ?w1)
      = Some (UsageError (str_exit c))"
    by (simp add: run_f2py_raised)
  from d have "dr_raised (f2py_main env (''f2py'' # fortran_argv rq) (lib_dir env)
      ((files w)(rq_f90_file rq \<mapsto> rq_code rq))) = Some (SystemExit c)" by simp
  from fortran_raised [OF assms(1,2) this] e
    run_f2py_stdout_exit [OF d, of False "args_verbosity args"] assms(3)
  show ?thesis by simp
qed

theorem driver_exit_raises_usage_error_witness:
  "fst (fortran (ex_env (exit_driver (ExitStr ''bad''))) ex_line ex_cell ex_world)
     = Some (UsageError ''bad'') \<and>
   stdout (snd (fortran (ex_env (exit_driver (ExitStr ''bad''))) ex_line ex_cell ex_world))
     = [''Error: syntax error'']"
proof -
  have p: "parse_argstring (ex_env (exit_driver (ExitStr ''bad''))) ex_line = Inr ex_args"
    by (simp add: ex_env_def)
  have d: "dr_raised (f2py_main (ex_env (exit_driver (ExitStr ''bad'')))
       (''f2py'' # fortran_argv (fortran_request (ex_env (exit_driver (ExitStr ''bad''))) ex_args ex_cell))
       (lib_dir (ex_env (exit_driver (ExitStr ''bad''))))
       ((files ex_world)(rq_f90_file (fortran_request (ex_env (exit_driver (ExitStr ''bad''))) ex_args ex_cell)
          \<mapsto> rq_code (fortran_request (ex_env (exit_driver (ExitStr ''bad''))) ex_args ex_cell))))
     = Some (SystemExit (ExitStr ''bad''))"
    by (simp add: ex_env_def exit_driver_def)
  from driver_exit_raises_usage_error [OF p refl refl d]
  show ?thesis by (simp add: ex_env_def exit_driver_def ex_world_def ex_args_def args_verbosity_def)
qed

section \<open>Process state around the driver\<close>

text \<open>
  C4: whatever the driver does to \<^verbatim>\<open>sys.argv\<close> and the working directory, and whether
  \<^verbatim>\<open>_run_f2py\<close> returns or raises, both have their values from before the call
  afterwards.
\<close>

theorem run_f2py_restores_argv_cwd:
  "sys_argv (snd (run_f2py env argv show_captured verbosity w)) = sys_argv w \<and>
   cwd (snd (run_f2py env argv show_captured verbosity w)) = cwd w"
  by (simp add: run_f2py_def Let_def split: prod.splits)

section \<open>The fingerprint\<close>

text \<open>
  C5: two requests with the same normalized source, interpreter version, interpreter path
  and driver version have the same key and the same module name, whatever their flags,
  cache directories and suffixes are; the key is the tuple of these four values.
\<close>

theorem fingerprint_deterministic:
  assumes "normalize_cell cell1 = normalize_cell cell2"
    and "version_info env1 = version_info env2"
    and "executable env1 = executable env2"
    and "f2py_version env1 = f2py_version env2"
    and "str_key env1 = str_key env2"
    and "md5_hexdigest env1 = md5_hexdigest env2"
  shows "rq_key (fortran_request env1 args1 cell1) = rq_key (fortran_request env2 args2 cell2) \<and>
         rq_module_name (fortran_request env1 args1 cell1) =
           rq_module_name (fortran_request env2 args2 cell2) \<and>
         rq_key (fortran_request env1 args1 cell1) =
           (normalize_cell cell1, version_info env1, executable env1, f2py_version env1)"
  using assms by (simp add: fortran_request_def Let_def)

theorem fingerprint_deterministic_witness:
  "rq_key (fortran_request (ex_env ok_driver) ex_args ex_cell) =
     rq_key (fortran_request ((ex_env (exit_driver ExitNone))\<lparr>lib_dir := ''/tmp/f'', so_ext := ''.pyd''\<rparr>)
        [] (ex_cell @ [newline])) \<and>
   rq_module_name (fortran_request (ex_env ok_driver) ex_args ex_cell) =
     rq_module_name (fortran_request ((ex_env (exit_driver ExitNone))\<lparr>lib_dir := ''/tmp/f'', so_ext := ''.pyd''\<rparr>)
        [] (ex_cell @ [newline]))"
proof -
  have n: "normalize_cell ex_cell = normalize_cell (ex_cell @ [newline])"
    by (simp add: normalize_cell_def endswith_def ex_cell_def)
  from fingerprint_deterministic [OF n, of "ex_env ok_driver"
      "(ex_env (exit_driver ExitNone))\<lparr>lib_dir := ''/tmp/f'', so_ext := ''.pyd''\<rparr>" ex_args "[]"]
  show ?thesis by (simp add: ex_env_def)
qed

section \<open>The argument translator\<close>

lemma flag_tokens_eq:
  "[''--'' @ k. (k, v) \<leftarrow> args, v = PyBool True] = spec_flag_tokens args"
  by (induction args rule: spec_flag_tokens.induct) simp_all

lemma option_tokens_eq:
  "[''--'' @ k @ ''='' @ s. (k, PyStr s) \<leftarrow> args] = spec_option_tokens args"
  by (induction args rule: spec_option_tokens.induct) simp_all

lemma link_tokens_eq: "[''--link-'' @ r. r \<leftarrow> rs] = spec_link_tokens rs"
  by (induction rs) simp_all

text \<open>
  C6: the list built by \<^verbatim>\<open>fortran\<close> is the \<^verbatim>\<open>--name\<close> tokens of the flags that are
  \<^verbatim>\<open>True\<close>, then the \<^verbatim>\<open>--name=value\<close> tokens of the string options, then the
  \<^verbatim>\<open>--link-r\<close> tokens of the link list, each group in the order of its source. The
  translation is a function of the namespace alone and has no state to change.
\<close>

theorem f2py_args_of_translation:
  "f2py_args_of args = spec_translate args"
  by (simp add: f2py_args_of_def spec_translate_def Let_def
        flag_tokens_eq option_tokens_eq link_tokens_eq)

section \<open>Source normalization\<close>

lemma endswith_newline_last:
  "endswith cell [newline] \<longleftrightarrow> cell \<noteq> [] \<and> last cell = newline"
  by (cases cell rule: rev_cases) (simp_all add: endswith_def)

text \<open>
  C9: normalization leaves a cell that ends in a newline as it is and appends one newline
  to any other cell, the empty one included; the request's source text, key and module
  name are computed from the normalized cell. So a cell that does not end in a newline
  and the same cell with the newline added give the same source text, key and module
  name, and for every cell the normalized text ends in a newline and normalizing twice
  is normalizing once.
\<close>

theorem normalize_trailing_newline:
  "(endswith cell [newline] \<longleftrightarrow> cell \<noteq> [] \<and> last cell = newline) \<and>
   (endswith cell [newline] \<longrightarrow> normalize_cell cell = cell) \<and>
   (\<not> endswith cell [newline] \<longrightarrow>
      normalize_cell cell = cell @ [newline] \<and>
      normalize_cell (cell @ [newline]) = cell @ [newline] \<and>
      rq_code (fortran_request env args (cell @ [newline])) =
        rq_code (fortran_request env args cell) \<and>
      rq_key (fortran_request env args (cell @ [newline])) =
        rq_key (fortran_request env args cell) \<and>
      rq_module_name (fortran_request env args (cell @ [newline])) =
        rq_module_name (fortran_request env args cell)) \<and>
   rq_code (fortran_request env args cell) = normalize_cell cell \<and>
   rq_key (fortran_request env args cell) =
     (normalize_cell cell, version_info env, executable env, f2py_version env) \<and>
   rq_module_name (fortran_request env args cell) =
     ''_fortran_magic_'' @ md5_hexdigest env (str_key env (rq_key (fortran_request env args cell))) \<and>
   endswith (normalize_cell cell) [newline] \<and>
   normalize_cell (normalize_cell cell) = normalize_cell cell"
proof -
  have a: "endswith (cell @ [newline]) [newline]"
    by (simp add: endswith_def)
  have keep: "endswith cell [newline] \<Longrightarrow> normalize_cell cell = cell"
    by (simp add: normalize_cell_def)
  have add: "\<not> endswith cell [newline] \<Longrightarrow> normalize_cell cell = cell @ [newline]"
    by (simp add: normalize_cell_def)
  have again: "normalize_cell (cell @ [newline]) = cell @ [newline]"
    using a by (simp add: normalize_cell_def)
  have ends: "endswith (normalize_cell cell) [newline]"
    using a by (cases "endswith cell [newline]") (simp_all add: keep add)
  then have idem: "normalize_cell (normalize_cell cell) = normalize_cell cell"
    by (simp add: normalize_cell_def)
  have rq: "rq_code (fortran_request env args c) = normalize_cell c"
    "rq_key (fortran_request env args c) =
       (normalize_cell c, version_info env, executable env, f2py_version env)"
    "rq_module_name (fortran_request env args c) =
       ''_fortran_magic_'' @ md5_hexdigest env (str_key env (rq_key (fortran_request env args c)))"
    for c
    by (simp_all add: fortran_request_def Let_def)
  show ?thesis
    using endswith_newline_last [of cell] keep add again ends idem
    by (simp add: rq)
qed

theorem normalize_trailing_newline_witness:
  "\<not> endswith ex_cell [newline] \<and>
   endswith (ex_cell @ [newline]) [newline] \<and>
   normalize_cell ex_cell = ex_cell @ [newline] \<and>
   normalize_cell (ex_cell @ [newline]) = ex_cell @ [newline] \<and>
   rq_code (fortran_request (ex_env ok_driver) ex_args (ex_cell @ [newline])) =
     rq_code (fortran_request (ex_env ok_driver) ex_args ex_cell) \<and>
   rq_key (fortran_request (ex_env ok_driver) ex_args (ex_cell @ [newline])) =
     rq_key (fortran_request (ex_env ok_driver) ex_args ex_cell) \<and>
   rq_module_name (fortran_request (ex_env ok_driver) ex_args (ex_cell @ [newline])) =
     rq_module_name (fortran_request (ex_env ok_driver) ex_args ex_cell) \<and>
   normalize_cell (normalize_cell ex_cell) = normalize_cell ex_cell"
proof -
  have h: "\<not> endswith ex_cell [newline]"
    by (simp add: endswith_def ex_cell_def)
  have e: "endswith (ex_cell @ [newline]) [newline]"
    by (simp add: endswith_def)
  from h normalize_trailing_newline [of ex_cell "ex_env ok_driver" ex_args]
  have first: "normalize_cell ex_cell = ex_cell @ [newline]"
    "normalize_cell (ex_cell @ [newline]) = ex_cell @ [newline]"
    "rq_code (fortran_request (ex_env ok_driver) ex_args (ex_cell @ [newline])) =
       rq_code (fortran_request (ex_env ok_driver) ex_args ex_cell)"
    "rq_key (fortran_request (ex_env ok_driver) ex_args (ex_cell @ [newline])) =
       rq_key (fortran_request (ex_env ok_driver) ex_args ex_cell)"
    "rq_module_name (fortran_request (ex_env ok_driver) ex_args (ex_cell @ [newline])) =
       rq_module_name (fortran_request (ex_env ok_driver) ex_args ex_cell)"
    "normalize_cell (normalize_cell ex_cell) = normalize_cell ex_cell"
    by blast+
  from e normalize_trailing_newline [of "ex_cell @ [newline]" "ex_env ok_driver" ex_args]
  have "normalize_cell (ex_cell @ [newline]) = ex_cell @ [newline]" by blast
  with h e first show ?thesis by blast
qed

section \<open>Every \<^verbatim>\<open>SystemExit\<close> is a usage error\<close>

text \<open>
  C10: a \<^verbatim>\<open>SystemExit\<close> of the driver with any argument, the status 0 included,
  makes \<^verbatim>\<open>_run_f2py\<close> raise \<^verbatim>\<open>UsageError(str(e))\<close>, and \<^verbatim>\<open>_run_f2py\<close> returns
  normally exactly when the driver returned without raising.
\<close>

theorem system_exit_becomes_usage_error:
  "(dr_raised (f2py_main env (''f2py'' # argv) (lib_dir env) (files w)) = Some (SystemExit c) \<longrightarrow>
      fst (run_f2py env argv show_captured verbosity w) = Some (UsageError (str_exit c))) \<and>
   (fst (run_f2py env argv show_captured verbosity w) = None \<longleftrightarrow>
      dr_raised (f2py_main env (''f2py'' # argv) (lib_dir env) (files w)) = None)"
  by (simp add: run_f2py_def run_main_def call_main_def Let_def
        split: prod.splits option.splits exn.splits)

theorem system_exit_becomes_usage_error_witness:
  "dr_raised (f2py_main (ex_env (exit_driver (ExitInt 0))) [''f2py'', ''-c'', ''--help-fcompiler'']
      (lib_dir (ex_env (exit_driver (ExitInt 0)))) (files ex_world)) = Some (SystemExit (ExitInt 0)) \<and>
   fst (run_f2py (ex_env (exit_driver (ExitInt 0))) [''-c'', ''--help-fcompiler''] True 0 ex_world)
     = Some (UsageError ''0'')"
proof -
  have d: "dr_raised (f2py_main (ex_env (exit_driver (ExitInt 0))) [''f2py'', ''-c'', ''--help-fcompiler'']
      (lib_dir (ex_env (exit_driver (ExitInt 0)))) (files ex_world)) = Some (SystemExit (ExitInt 0))"
    by (simp add: ex_env_def exit_driver_def)
  have s0: "str_int 0 = ''0''" by code_simp
  from d s0 system_exit_becomes_usage_error [of "ex_env (exit_driver (ExitInt 0))"
      "[''-c'', ''--help-fcompiler'']" ex_world "ExitInt 0" True 0]
  show ?thesis by simp
qed

section \<open>Source file and driver invocation\<close>

lemma path_join_relative:
  "\<not> startswith b ''/'' \<Longrightarrow>
   path_join a b = (if a = [] \<or> endswith a ''/'' then a else a @ ''/'') @ b"
  by (simp add: path_join_def)

text \<open>
  C7: for every request, cached or not, the module name is \<^verbatim>\<open>_fortran_magic_\<close>
  followed by the digest of the key, the source file is that name with \<^verbatim>\<open>.f90\<close>
  inside the cache directory, and the driver is entered once, in the cache directory,
  with the translated flags followed by \<^verbatim>\<open>-m\<close>, the module name, \<^verbatim>\<open>-c\<close> and the
  path of the source file, which then holds the normalized source.
\<close>

theorem fortran_writes_source_and_runs_driver:
  assumes "parse_argstring env line = Inr args"
    and "rq = fortran_request env args cell"
  shows "rq_module_name rq = ''_fortran_magic_'' @ md5_hexdigest env (str_key env (rq_key rq)) \<and>
         rq_f90_file rq =
           (if lib_dir env = [] \<or> endswith (lib_dir env) ''/'' then lib_dir env
            else lib_dir env @ ''/'') @ rq_module_name rq @ ''.f90'' \<and>
         f2py_calls (snd (fortran env line cell w)) =
           f2py_calls w @
             [(''f2py'' # f2py_args_of args @ [''-m'', rq_module_name rq, ''-c'', rq_f90_file rq],
               lib_dir env,
               (files w)(rq_f90_file rq \<mapsto> normalize_cell cell))]"
proof -
  have name: "rq_module_name rq = ''_fortran_magic_'' @ md5_hexdigest env (str_key env (rq_key rq))"
    using assms(2) by (simp add: fortran_request_def Let_def)
  then have "\<not> startswith (rq_module_name rq @ ''.f90'') ''/''"
    by (simp add: startswith_def)
  then have f90: "rq_f90_file rq =
      (if lib_dir env = [] \<or> endswith (lib_dir env) ''/'' then lib_dir env
       else lib_dir env @ ''/'') @ rq_module_name rq @ ''.f90''"
    using assms(2) path_join_relative [of "rq_module_name rq @ ''.f90''" "lib_dir env"]
    by (simp add: fortran_request_def Let_def)
  have "rq_code rq = normalize_cell cell" "rq_f2py_args rq = f2py_args_of args"
    using assms(2) by (simp_all add: fortran_request_def Let_def)
  with fortran_calls [OF assms, of w] name f90 show ?thesis
    by (simp add: fortran_argv_def)
qed

theorem fortran_writes_source_and_runs_driver_witness:
  "f2py_calls (snd (fortran (ex_env ok_driver) ex_line ex_cell ex_world)) =
     [([''f2py'', ''--noarch'', ''--debug'', ''--fcompiler=gnu95'', ''--opt=-O3'',
        ''--link-lapack'', ''--link-blas'', ''-m'',
        ''_fortran_magic_0cc175b9c0f1b6a831c399e269772661'', ''-c'',
        ''/home/u/.cache/ipython/fortran/_fortran_magic_0cc175b9c0f1b6a831c399e269772661.f90''],
       ''/home/u/.cache/ipython/fortran'',
       [''/home/u/.cache/ipython/fortran/_fortran_magic_0cc175b9c0f1b6a831c399e269772661.f90''
          \<mapsto> ex_cell @ [newline]])]"
proof -
  have p: "parse_argstring (ex_env ok_driver) ex_line = Inr ex_args"
    by (simp add: ex_env_def)
  have a: "f2py_args_of ex_args = [''--noarch'', ''--debug'', ''--fcompiler=gnu95'', ''--opt=-O3'',
       ''--link-lapack'', ''--link-blas'']"
    by (simp add: f2py_args_of_def ex_args_def args_link_def)
  have n: "normalize_cell ex_cell = ex_cell @ [newline]"
    by (simp add: normalize_cell_def endswith_def ex_cell_def)
  have m: "rq_module_name (fortran_request (ex_env ok_driver) ex_args ex_cell) =
      ''_fortran_magic_0cc175b9c0f1b6a831c399e269772661''"
    by (simp add: fortran_request_def Let_def ex_env_def ex_digest_def)
  have f: "rq_f90_file (fortran_request (ex_env ok_driver) ex_args ex_cell) =
      ''/home/u/.cache/ipython/fortran/_fortran_magic_0cc175b9c0f1b6a831c399e269772661.f90''"
    by (simp add: fortran_request_def Let_def ex_env_def ex_digest_def path_join_def
          startswith_def endswith_def)
  have l: "lib_dir (ex_env ok_driver) = ''/home/u/.cache/ipython/fortran''"
    by (simp add: ex_env_def)
  have w: "f2py_calls ex_world = []" "files ex_world = Map.empty"
    by (simp_all add: ex_world_def)
  from fortran_writes_source_and_runs_driver [OF p refl, of ex_cell ex_world]
  show ?thesis by (simp only: a n m f l w append_Nil append_Cons)
qed

section \<open>Namespace injection\<close>

text \<open>
  A module that holds dunder names only, imported with verbosity 1: nothing is bound and
  no summary is printed.
\<close>

theorem import_all_summary_counterexample:
  "(0::int) < 1 \<and>
   stdout (import_all [(''__doc__'', 0::nat), (''__name__'', 1)] 1 ex_world) = stdout ex_world \<and>
   user_ns (import_all [(''__doc__'', 0::nat), (''__name__'', 1)] 1 ex_world) = user_ns ex_world"
  by (simp add: import_all_def startswith_def ex_world_def)

lemma import_loop_unbound:
  "k \<notin> fst ` set m \<or> startswith k ''__'' \<Longrightarrow>
   user_ns (fst (import_loop m w acc)) k = user_ns w k"
  by (induction m w acc rule: import_loop.induct) auto

text \<open>
  C8, as the code has it: every name of the module that does not start with two
  underscores is bound to its value in the user namespace, every other name keeps its
  binding, and the summary of the bound names is printed when verbosity is above 0 and
  at least one name was bound; otherwise nothing is printed.
\<close>

theorem import_all_binds_public_names:
  assumes "distinct (map fst module)"
  shows "(\<forall>(k, v) \<in> set module. \<not> startswith k ''__'' \<longrightarrow>
            user_ns (import_all module verbosity w) k = Some v) \<and>
         (\<forall>k. k \<notin> fst ` set module \<or> startswith k ''__'' \<longrightarrow>
            user_ns (import_all module verbosity w) k = user_ns w k) \<and>
         stdout (import_all module verbosity w) =
           (if verbosity > 0 \<and> filter (\<lambda>k. \<not> startswith k ''__'') (map fst module) \<noteq> []
            then stdout w @
              [ready_msg (filter (\<lambda>k. \<not> startswith k ''__'') (map fst module)) @ [newline]]
            else stdout w)"
proof (intro conjI)
  show "\<forall>(k, v) \<in> set module. \<not> startswith k ''__'' \<longrightarrow>
          user_ns (import_all module verbosity w) k = Some v"
    using import_loop_binds [OF assms] by (auto simp add: import_all_user_ns)
  show "\<forall>k. k \<notin> fst ` set module \<or> startswith k ''__'' \<longrightarrow>
          user_ns (import_all module verbosity w) k = user_ns w k"
    using import_loop_unbound [of _ module w "[]"] by (simp add: import_all_user_ns)
  show "stdout (import_all module verbosity w) =
           (if verbosity > 0 \<and> filter (\<lambda>k. \<not> startswith k ''__'') (map fst module) \<noteq> []
            then stdout w @
              [ready_msg (filter (\<lambda>k. \<not> startswith k ''__'') (map fst module)) @ [newline]]
            else stdout w)"
    by (rule import_all_stdout)
qed

theorem import_all_binds_public_names_witness:
  "distinct (map fst ex_module) \<and>
   user_ns (import_all ex_module 1 ex_world) ''f'' = Some 1 \<and>
   user_ns (import_all ex_module 1 ex_world) ''__doc__'' = None \<and>
   stdout (import_all ex_module 1 ex_world) =
     [newline # ''Ok. The following fortran objects are ready to use: f'' @ [newline]]"
proof -
  have d: "distinct (map fst ex_module)" by (simp add: ex_module_def)
  have m: "(''f'', 1) \<in> set ex_module" by (simp add: ex_module_def)
  have s: "\<not> startswith ''f'' ''__''" "startswith ''__doc__'' ''__''"
    by (simp_all add: startswith_def)
  have f: "filter (\<lambda>k. \<not> startswith k ''__'') (map fst ex_module) = [''f'']"
    by (simp add: ex_module_def startswith_def)
  have w: "stdout ex_world = []" "user_ns ex_world = Map.empty" by (simp_all add: ex_world_def)
  from import_all_binds_public_names [OF d, of 1 ex_world] m s
  have "user_ns (import_all ex_module 1 ex_world) ''f'' = Some 1"
    and "user_ns (import_all ex_module 1 ex_world) ''__doc__'' = user_ns ex_world ''__doc__''"
    and "stdout (import_all ex_module 1 ex_world) = stdout ex_world @ [ready_msg [''f''] @ [newline]]"
    by (auto simp add: f)
  with d w show ?thesis by (simp add: ready_msg_def)
qed

end
